theory Spec2Isabelle
  imports Complex_Main "HOL-Library.Sublist"
begin

section \<open>Errors and small Python helpers\<close>

text \<open>
  Every \<^verbatim>\<open>raise\<close> of the modelled functions is a value of \<open>error\<close>; a function that can
  raise returns \<open>error + 'a\<close>, with \<open>Inl\<close> the raised exception.

  \<^item> \<open>ValueError msg\<close>: \<^verbatim>\<open>raise ValueError(msg)\<close>.
  \<^item> \<open>ProviderError reason\<close>: any exception that leaves a provider adapter, a media
    library call or a file operation; \<open>reason\<close> is \<^verbatim>\<open>str(e)\<close>.
  \<^item> \<open>AllTTSProvidersFailed last\<close>:
    \<^verbatim>\<open>Exception(f"All TTS providers failed. Last error: {last_error}")\<close>, where
    \<open>last\<close> is the interpolated \<^verbatim>\<open>last_error\<close> (\<open>None\<close> is Python's \<^verbatim>\<open>None\<close>).
  \<^item> \<open>AllImageProvidersFailed last\<close>: the exception raised at the end of
    \<^verbatim>\<open>ImageGenerator.generate_image\<close>, whose message ends with the interpolated
    \<^verbatim>\<open>last_error\<close>.
  \<^item> \<open>PollinationsFailed\<close>: the exception raised when every Pollinations URL failed.
  \<^item> \<open>NoValidClips\<close>: \<^verbatim>\<open>Exception("No valid video clips created")\<close>.
  \<^item> \<open>IndexError\<close>, \<open>AttributeError\<close>: the Python built-in exceptions.
\<close>

datatype error =
    ValueError string
  | ProviderError string
  | AllTTSProvidersFailed "error option"
  | AllImageProvidersFailed "error option"
  | PollinationsFailed
  | NoValidClips
  | IndexError
  | AttributeError

text \<open>
  \<^verbatim>\<open>str.strip()\<close> removes leading and trailing whitespace. A text is a list of
  characters of any type \<open>'c\<close> (Python's code points); which characters are whitespace
  (\<^verbatim>\<open>str.isspace\<close>) is the parameter \<open>isspace\<close>.
\<close>

definition py_strip :: "('c \<Rightarrow> bool) \<Rightarrow> 'c list \<Rightarrow> 'c list" where
  "py_strip isspace text = rev (dropWhile isspace (rev (dropWhile isspace text)))"


text \<open>\<^verbatim>\<open>str.lower()\<close> on the ASCII letters; other bytes are left as they are.\<close>

definition lower_char :: "char \<Rightarrow> char" where
  "lower_char c =
     (if 65 \<le> (of_char c :: nat) \<and> (of_char c :: nat) \<le> 90
      then char_of (of_char c + (32 :: nat)) else c)"

definition lower :: "string \<Rightarrow> string" where
  "lower s = map lower_char s"

text \<open>\<^verbatim>\<open>str(n)\<close> for a non-negative integer, and the format \<^verbatim>\<open>{n:02d}\<close>.\<close>

definition digit_char :: "nat \<Rightarrow> char" where
  "digit_char d = ''0123456789'' ! d"

fun str_nat :: "nat \<Rightarrow> string" where
  "str_nat n =
     (if n < 10 then [digit_char n]
      else str_nat (n div 10) @ [digit_char (n mod 10)])"


text \<open>Truthiness of an optional string: \<^verbatim>\<open>None\<close> and \<^verbatim>\<open>""\<close> are false.\<close>

definition truthy :: "string option \<Rightarrow> bool" where
  "truthy v = (case v of None \<Rightarrow> False | Some s \<Rightarrow> s \<noteq> [])"


section \<open>Motion speed tier (\<^verbatim>\<open>VideoMaker._apply_ken_burns_effect\<close>)\<close>

record speed_tier =
  zoom_speed :: real
  pan_speed :: real
  zoom_factor :: real

text \<open>The three parameters chosen from \<^verbatim>\<open>clip.duration\<close>.\<close>

definition ken_burns_tier :: "real \<Rightarrow> speed_tier" where
  "ken_burns_tier duration =
     (if duration < 2.0 then
        \<lparr>zoom_speed = 0.8, pan_speed = 0.6, zoom_factor = 0.3\<rparr>
      else if duration < 5.0 then
        \<lparr>zoom_speed = 1.0, pan_speed = 0.8, zoom_factor = 0.2\<rparr>
      else
        \<lparr>zoom_speed = 1.2, pan_speed = 1.0, zoom_factor = 0.15\<rparr>)"

text \<open>The zoom and position functions of time that the effect installs on the clip.\<close>

definition zoom_func :: "real \<Rightarrow> real \<Rightarrow> real" where
  "zoom_func duration t =
     (let progress = (if duration > 0 then t / duration else 0);
          adjusted_progress = min 1.0 (progress * zoom_speed (ken_burns_tier duration))
      in 1.0 + zoom_factor (ken_burns_tier duration) * adjusted_progress)"

definition x_func :: "real \<Rightarrow> real \<Rightarrow> real" where
  "x_func duration t =
     (let progress = (if duration > 0 then t / duration else 0);
          adjusted_progress = min 1.0 (progress * pan_speed (ken_burns_tier duration))
      in - 50 * adjusted_progress)"

definition y_func :: "real \<Rightarrow> real \<Rightarrow> real" where
  "y_func duration t =
     (let progress = (if duration > 0 then t / duration else 0);
          adjusted_progress = min 1.0 (progress * pan_speed (ken_burns_tier duration))
      in - 30 * adjusted_progress)"

definition fast_tier :: speed_tier where
  "fast_tier = \<lparr>zoom_speed = 0.8, pan_speed = 0.6, zoom_factor = 0.30\<rparr>"

definition medium_tier :: speed_tier where
  "medium_tier = \<lparr>zoom_speed = 1.0, pan_speed = 0.8, zoom_factor = 0.20\<rparr>"

definition slow_tier :: speed_tier where
  "slow_tier = \<lparr>zoom_speed = 1.2, pan_speed = 1.0, zoom_factor = 0.15\<rparr>"


section \<open>Voice generation (\<^verbatim>\<open>VoiceGenerator.generate_voice\<close>)\<close>

text \<open>
  What a generation call does to the outside world, in order: it creates the output
  directory, and it invokes provider adapters. Only an adapter writes the output file.
\<close>

datatype 'c event =
    MakeDirs string
  | Invoke string "'c list" string

text \<open>The fallback order, chosen from \<^verbatim>\<open>self.provider\<close>.\<close>

definition providers_to_try :: "string \<Rightarrow> string list" where
  "providers_to_try self_provider =
     (if self_provider = ''edge'' then [''edge'', ''elevenlabs'', ''gtts'', ''openai'', ''azure'']
      else if self_provider = ''openai'' then [''openai'', ''elevenlabs'', ''gtts'', ''edge'', ''azure'']
      else if self_provider = ''gtts'' then [''gtts'', ''elevenlabs'', ''edge'', ''openai'', ''azure'']
      else if self_provider = ''azure'' then [''azure'', ''elevenlabs'', ''gtts'', ''edge'', ''openai'']
      else if self_provider = ''elevenlabs'' then [''elevenlabs'', ''edge'', ''gtts'', ''openai'', ''azure'']
      else [''elevenlabs'', ''gtts'', ''edge'', ''openai'', ''azure''])"

text \<open>The provider names that the loop of \<^verbatim>\<open>generate_voice\<close> dispatches on.\<close>

definition tts_names :: "string list" where
  "tts_names = [''edge'', ''openai'', ''gtts'', ''azure'', ''elevenlabs'']"

text \<open>
  The loop over \<^verbatim>\<open>providers_to_try\<close>. The adapters (\<^verbatim>\<open>_generate_edge_tts\<close> and the
  others) talk to the network; \<open>adapter provider text output_path\<close> is what the adapter of
  that provider does on this call: it returns a path or raises. The voice, rate and pitch
  arguments are passed through unchanged. A name that no branch of the dispatch handles
  is passed over without a call.
\<close>

fun try_tts_providers ::
  "(string \<Rightarrow> 'c list \<Rightarrow> string \<Rightarrow> error + string) \<Rightarrow> 'c list \<Rightarrow> string \<Rightarrow>
   string list \<Rightarrow> error option \<Rightarrow> (error + string) \<times> 'c event list" where
  "try_tts_providers adapter text output_path [] last_error =
     (Inl (AllTTSProvidersFailed last_error), [])"
| "try_tts_providers adapter text output_path (provider # rest) last_error =
     (if provider \<in> set tts_names then
        (case adapter provider text output_path of
           Inr path \<Rightarrow> (Inr path, [Invoke provider text output_path])
         | Inl e \<Rightarrow>
             (case try_tts_providers adapter text output_path rest (Some e) of
                (r, evs) \<Rightarrow> (r, Invoke provider text output_path # evs)))
      else try_tts_providers adapter text output_path rest last_error)"

text \<open>
  \<^verbatim>\<open>generate_voice\<close>. \<open>makedirs_ok output_path\<close> says that
  \<^verbatim>\<open>os.makedirs(os.path.dirname(output_path), exist_ok=True)\<close> completes; otherwise its
  exception leaves the call.
\<close>

definition generate_voice ::
  "('c \<Rightarrow> bool) \<Rightarrow> (string \<Rightarrow> bool) \<Rightarrow> (string \<Rightarrow> 'c list \<Rightarrow> string \<Rightarrow> error + string) \<Rightarrow>
   string \<Rightarrow> 'c list \<Rightarrow> string \<Rightarrow> (error + string) \<times> 'c event list" where
  "generate_voice isspace makedirs_ok adapter self_provider text output_path =
     (if text = [] then (Inl (ValueError ''Text cannot be empty''), [])
      else
        let text' = py_strip isspace text in
        if text' = [] then (Inl (ValueError ''Text cannot be empty after stripping''), [])
        else if \<not> makedirs_ok output_path then (Inl (ProviderError ''makedirs''), [])
        else
          (case try_tts_providers adapter text' output_path
                  (providers_to_try self_provider) None of
             (r, evs) \<Rightarrow> (r, MakeDirs output_path # evs)))"


section \<open>Image generation (\<^verbatim>\<open>ImageGenerator\<close>)\<close>












section \<open>The Pollinations adapter (\<^verbatim>\<open>_generate_pollinations_image\<close>)\<close>








section \<open>The image loop of the application (\<^verbatim>\<open>create_images_tab\<close>)\<close>




section \<open>Video composition (\<^verbatim>\<open>VideoMaker\<close>)\<close>

text \<open>
  A narration text is a list of Unicode code points. The collaborators of
  \<^verbatim>\<open>_create_video_with_tts\<close>:
  \<^item> \<open>env_isspace\<close>, \<open>env_lower\<close>: \<^verbatim>\<open>str.isspace\<close> and \<^verbatim>\<open>str.lower\<close>;
  \<^item> \<open>env_get_api_key\<close>: \<^verbatim>\<open>api_manager.get_api_key\<close>;
  \<^item> \<open>env_temp_dir_ok\<close>: \<^verbatim>\<open>os.makedirs("temp", exist_ok=True)\<close> completes;
  \<^item> \<open>env_makedirs_ok\<close>, \<open>env_tts_adapter\<close>: directory creation and the provider
    adapters of \<^verbatim>\<open>generate_voice\<close>;
  \<^item> \<open>env_image_clip_ok img d\<close>: \<^verbatim>\<open>ImageClip(img, duration=d)\<close> and its resizing
    complete;
  \<^item> \<open>env_path_exists\<close>: \<^verbatim>\<open>os.path.exists\<close>;
  \<^item> \<open>env_audio_duration p\<close>: the duration of \<^verbatim>\<open>AudioFileClip(p)\<close>, or the exception of
    loading it;
  \<^item> \<open>env_music_ok p\<close>: loading, looping, trimming and mixing the background music
    complete;
  \<^item> \<open>env_write_ok p\<close>: \<^verbatim>\<open>write_videofile\<close> completes.
  The other calls into the media library (fades, positions, concatenation, start times)
  are taken to complete.
\<close>

record video_env =
  env_isspace :: "nat \<Rightarrow> bool"
  env_lower :: "nat list \<Rightarrow> nat list"
  env_get_api_key :: "string \<Rightarrow> string option"
  env_temp_dir_ok :: bool
  env_makedirs_ok :: "string \<Rightarrow> bool"
  env_tts_adapter :: "string \<Rightarrow> nat list \<Rightarrow> string \<Rightarrow> error + string"
  env_image_clip_ok :: "string \<Rightarrow> real \<Rightarrow> bool"
  env_path_exists :: "string \<Rightarrow> bool"
  env_audio_duration :: "string \<Rightarrow> error + real"
  env_music_ok :: "string \<Rightarrow> bool"
  env_write_ok :: "string \<Rightarrow> bool"

subsection \<open>Choice of the effect (\<^verbatim>\<open>_select_effect_for_scene\<close>)\<close>

text \<open>The code points of an ASCII literal.\<close>

definition ustr :: "string \<Rightarrow> nat list" where
  "ustr s = map of_char s"

text \<open>The keyword lists, in the order of the source; the Vietnamese keywords by code point.\<close>

definition zoom_in_words :: "nat list list" where
  "zoom_in_words =
     [ustr ''zoom'',
      [112, 104, 243, 110, 103, 32, 116, 111],
      [108, 7899, 110, 32, 108, 234, 110],
      [116, 259, 110, 103],
      [109, 7903, 32, 114, 7897, 110, 103]]"

definition zoom_out_words :: "nat list list" where
  "zoom_out_words =
     [[116, 104, 117, 32, 110, 104, 7887],
      [110, 104, 7887, 32, 108, 7841, 105],
      [103, 105, 7843, 109],
      [99, 111, 32, 108, 7841, 105]]"

definition pan_left_words :: "nat list list" where
  "pan_left_words =
     [[116, 114, 225, 105],
      [98, 234, 110, 32, 116, 114, 225, 105],
      [115, 97, 110, 103, 32, 116, 114, 225, 105],
      ustr ''left'']"

definition pan_right_words :: "nat list list" where
  "pan_right_words =
     [[112, 104, 7843, 105],
      [98, 234, 110, 32, 112, 104, 7843, 105],
      [115, 97, 110, 103, 32, 112, 104, 7843, 105],
      ustr ''right'']"

definition ken_burns_words :: "nat list list" where
  "ken_burns_words =
     [[99, 104, 117, 121, 7875, 110, 32, 273, 7897, 110, 103],
      [100, 105, 32, 99, 104, 117, 121, 7875, 110],
      [100, 105, 32, 99, 104, 117, 121, 7875, 110],
      ustr ''motion'',
      ustr ''movement'']"

definition static_words :: "nat list list" where
  "static_words =
     [[116, 297, 110, 104],
      [273, 7913, 110, 103, 32, 121, 234, 110],
      [107, 104, 244, 110, 103, 32, 273, 7897, 110, 103],
      ustr ''static'']"

definition any_word_in :: "nat list list \<Rightarrow> nat list \<Rightarrow> bool" where
  "any_word_in ws scene_text_lower = list_ex (\<lambda>word. sublist word scene_text_lower) ws"

definition select_effect_for_scene ::
  "(nat list \<Rightarrow> nat list) \<Rightarrow> string \<Rightarrow> nat list \<Rightarrow> string" where
  "select_effect_for_scene str_lower default_effect scene_text =
     (if scene_text = [] then default_effect
      else
        let scene_text_lower = str_lower scene_text in
        if any_word_in zoom_in_words scene_text_lower then ''zoom_in''
        else if any_word_in zoom_out_words scene_text_lower then ''zoom_out''
        else if any_word_in pan_left_words scene_text_lower then ''pan_left''
        else if any_word_in pan_right_words scene_text_lower then ''pan_right''
        else if any_word_in ken_burns_words scene_text_lower then ''ken_burns''
        else if any_word_in static_words scene_text_lower then ''static''
        else (if default_effect = ''ken_burns'' then ''ken_burns'' else default_effect))"

subsection \<open>Building the clips\<close>

datatype fade = FadeIn real | FadeOut real

text \<open>
  A clip of the video: the scene it shows (\<open>clip_index\<close>, counted from 0 as the loop
  variable \<^verbatim>\<open>i\<close>), its image, its duration, the effect selected for it, the Ken Burns
  parameters when that effect is applied, and the fades in the order they were applied.
\<close>

record clip =
  clip_index :: nat
  clip_image :: string
  clip_duration :: real
  clip_effect :: string
  clip_motion :: "speed_tier option"
  clip_fades :: "fade list"

text \<open>
  The body of the loop that builds the clips, for scene \<open>i\<close>; \<open>None\<close> when an exception
  is caught and the loop goes on with the next image. \<open>n_images\<close> is
  \<^verbatim>\<open>len(image_paths)\<close>. The class has no method \<^verbatim>\<open>_apply_zoom_effect\<close>: selecting
  \<^verbatim>\<open>zoom_in\<close> or \<^verbatim>\<open>zoom_out\<close> raises \<^verbatim>\<open>AttributeError\<close>. The test
  \<^verbatim>\<open>i < len(image_paths) - 1\<close> is written \<open>i + 1 < n_images\<close>.
\<close>

definition make_clip ::
  "video_env \<Rightarrow> nat \<Rightarrow> nat list list \<Rightarrow> nat \<Rightarrow> string \<Rightarrow> real \<Rightarrow> string \<Rightarrow> clip option" where
  "make_clip E n_images scene_texts i img_path duration effect =
     (if \<not> env_image_clip_ok E img_path duration then None
      else
        let selected_effect =
              select_effect_for_scene (env_lower E) effect
                (if i < length scene_texts then scene_texts ! i else [])
        in
        if selected_effect = ''zoom_in'' \<or> selected_effect = ''zoom_out'' then None
        else
          Some \<lparr>clip_index = i, clip_image = img_path, clip_duration = duration,
                clip_effect = selected_effect,
                clip_motion =
                  (if selected_effect = ''ken_burns'' then Some (ken_burns_tier duration)
                   else None),
                clip_fades =
                  (if i > 0 then [FadeIn 0.5] else []) @
                  (if i + 1 < n_images then [FadeOut 0.5] else [])\<rparr>)"

text \<open>
  \<^verbatim>\<open>for i, (img_path, duration, effect) in enumerate(zip(image_paths, durations, effects))\<close>,
  from index \<open>i\<close> on; the list holds the zipped triples.
\<close>

fun clips_from ::
  "video_env \<Rightarrow> nat \<Rightarrow> nat list list \<Rightarrow> nat \<Rightarrow> (string \<times> real \<times> string) list \<Rightarrow> clip list" where
  "clips_from E n_images scene_texts i [] = []"
| "clips_from E n_images scene_texts i ((img_path, duration, effect) # rest) =
     (case make_clip E n_images scene_texts i img_path duration effect of
        None \<Rightarrow> clips_from E n_images scene_texts (Suc i) rest
      | Some c \<Rightarrow> c # clips_from E n_images scene_texts (Suc i) rest)"

definition build_clips ::
  "video_env \<Rightarrow> string list \<Rightarrow> real list \<Rightarrow> string list \<Rightarrow> nat list list \<Rightarrow> clip list" where
  "build_clips E image_paths durations effects scene_texts =
     clips_from E (length image_paths) scene_texts 0 (zip image_paths (zip durations effects))"

subsection \<open>Narration audio for the scenes\<close>

record voice_generator =
  vg_provider :: string
  vg_api_key :: "string option"

text \<open>\<^verbatim>\<open>VoiceGenerator.__init__\<close>; a provider that is \<^verbatim>\<open>None\<close> has no \<^verbatim>\<open>lower\<close>.\<close>

definition voice_generator_init ::
  "(string \<Rightarrow> string option) \<Rightarrow> string option \<Rightarrow> string option \<Rightarrow> error + voice_generator" where
  "voice_generator_init key provider api_key =
     (case provider of
        None \<Rightarrow> Inl AttributeError
      | Some p \<Rightarrow>
          let self_provider = lower p;
              self_api_key = (if truthy api_key then api_key else key self_provider)
          in
          if self_provider = ''openai'' \<and> \<not> truthy self_api_key then
            Inl (ValueError ''OpenAI API key is required. Set API key in config or pass api_key parameter.'')
          else Inr \<lparr>vg_provider = self_provider, vg_api_key = self_api_key\<rparr>)"

definition tts_path :: "nat \<Rightarrow> string" where
  "tts_path i = ''temp/scene_'' @ str_nat (i + 1) @ ''_tts.mp3''"

text \<open>
  The loop over \<^verbatim>\<open>scene_texts\<close>, from scene \<open>i\<close> on. An exception of \<^verbatim>\<open>generate_voice\<close>
  is caught and gives \<open>None\<close> for the scene; an exception of \<^verbatim>\<open>os.makedirs\<close> leaves the
  loop.
\<close>

fun tts_loop :: "video_env \<Rightarrow> string \<Rightarrow> nat \<Rightarrow> nat list list \<Rightarrow> error + string option list" where
  "tts_loop E self_provider i [] = Inr []"
| "tts_loop E self_provider i (text # rest) =
     (if text \<noteq> [] \<and> py_strip (env_isspace E) text \<noteq> [] then
        if \<not> env_temp_dir_ok E then Inl (ProviderError ''makedirs'')
        else
          let tts_file =
                (case fst (generate_voice (env_isspace E) (env_makedirs_ok E)
                             (env_tts_adapter E) self_provider text (tts_path i)) of
                   Inr tts_result \<Rightarrow> Some tts_result
                 | Inl e \<Rightarrow> None)
          in
          (case tts_loop E self_provider (Suc i) rest of
             Inl e \<Rightarrow> Inl e
           | Inr tts_files \<Rightarrow> Inr (tts_file # tts_files))
      else
        (case tts_loop E self_provider (Suc i) rest of
           Inl e \<Rightarrow> Inl e
         | Inr tts_files \<Rightarrow> Inr (None # tts_files)))"

text \<open>
  The first block of \<^verbatim>\<open>_create_video_with_tts\<close>: the list \<^verbatim>\<open>tts_files\<close>. The voice
  settings are a dictionary from keys to strings or \<^verbatim>\<open>None\<close>, here an association list;
  the empty one is false.
\<close>

definition generate_tts_files ::
  "video_env \<Rightarrow> (string \<times> string option) list \<Rightarrow> nat list list \<Rightarrow> string option list" where
  "generate_tts_files E voice_settings scene_texts =
     (if voice_settings \<noteq> [] \<and> map_of voice_settings ''provider'' \<noteq> Some (Some ''none'') then
        (case voice_generator_init (env_get_api_key E)
                (case map_of voice_settings ''provider'' of None \<Rightarrow> Some ''edge'' | Some v \<Rightarrow> v)
                (case map_of voice_settings ''api_key'' of None \<Rightarrow> None | Some v \<Rightarrow> v) of
           Inl e \<Rightarrow> replicate (length scene_texts) None
         | Inr voice_gen \<Rightarrow>
             (case tts_loop E (vg_provider voice_gen) 0 scene_texts of
                Inl e \<Rightarrow> replicate (length scene_texts) None
              | Inr tts_files \<Rightarrow> tts_files))
      else replicate (length scene_texts) None)"

subsection \<open>Reconciling the scene durations with the audio\<close>

record audio_clip =
  audio_index :: nat
  audio_path :: string
  audio_start :: real
  audio_duration :: real

text \<open>The variables of the loop over \<^verbatim>\<open>tts_files\<close>.\<close>

record reconcile_state =
  audio_clips :: "audio_clip list"
  adjusted_scene_durations :: "real list"
  current_time :: real

definition reconcile_init :: reconcile_state where
  "reconcile_init = \<lparr>audio_clips = [], adjusted_scene_durations = [], current_time = 0\<rparr>"

text \<open>
  The duration measured for the audio file of a scene: the file name is not empty, the
  file exists and loads. \<open>None\<close> when the scene has no such file.
\<close>

definition measured_audio :: "video_env \<Rightarrow> string option \<Rightarrow> real option" where
  "measured_audio E tts_file =
     (case tts_file of
        None \<Rightarrow> None
      | Some p \<Rightarrow>
          if p \<noteq> [] \<and> env_path_exists E p then
            (case env_audio_duration E p of Inr d \<Rightarrow> Some d | Inl e \<Rightarrow> None)
          else None)"

text \<open>
  The fallback \<^verbatim>\<open>adjusted_scene_durations.append(scene_durations[i])\<close> followed by the
  update of \<^verbatim>\<open>current_time\<close>; the index can be out of range.
\<close>

definition keep_requested :: "real list \<Rightarrow> nat \<Rightarrow> reconcile_state \<Rightarrow> error + reconcile_state" where
  "keep_requested scene_durations i s =
     (if i < length scene_durations then
        Inr (s\<lparr>adjusted_scene_durations := adjusted_scene_durations s @ [scene_durations ! i],
               current_time := current_time s + scene_durations ! i\<rparr>)
      else Inl IndexError)"

text \<open>The body of the loop, for scene \<open>i\<close>.\<close>

definition reconcile_step ::
  "video_env \<Rightarrow> real list \<Rightarrow> nat \<Rightarrow> string option \<Rightarrow> reconcile_state \<Rightarrow> error + reconcile_state" where
  "reconcile_step E scene_durations i tts_file s =
     (case tts_file of
        None \<Rightarrow> keep_requested scene_durations i s
      | Some p \<Rightarrow>
          if p \<noteq> [] \<and> env_path_exists E p then
            (case env_audio_duration E p of
               Inl e \<Rightarrow> keep_requested scene_durations i s
             | Inr actual_audio_duration \<Rightarrow>
                 if actual_audio_duration > 0 then
                   let adjusted_duration = actual_audio_duration + 0.5 in
                   Inr (s\<lparr>audio_clips := audio_clips s @
                            [\<lparr>audio_index = i, audio_path = p, audio_start = current_time s,
                              audio_duration = actual_audio_duration\<rparr>],
                          adjusted_scene_durations :=
                            adjusted_scene_durations s @ [adjusted_duration],
                          current_time := current_time s + adjusted_duration\<rparr>)
                 else keep_requested scene_durations i s)
          else keep_requested scene_durations i s)"

text \<open>\<^verbatim>\<open>for i, tts_file in enumerate(tts_files)\<close>, from scene \<open>i\<close> on.\<close>

fun reconcile_loop ::
  "video_env \<Rightarrow> real list \<Rightarrow> nat \<Rightarrow> string option list \<Rightarrow> reconcile_state \<Rightarrow>
   error + reconcile_state" where
  "reconcile_loop E scene_durations i [] s = Inr s"
| "reconcile_loop E scene_durations i (tts_file # rest) s =
     (case reconcile_step E scene_durations i tts_file s of
        Inl e \<Rightarrow> Inl e
      | Inr s' \<Rightarrow> reconcile_loop E scene_durations (Suc i) rest s')"

definition reconcile ::
  "video_env \<Rightarrow> real list \<Rightarrow> string option list \<Rightarrow> error + reconcile_state" where
  "reconcile E scene_durations tts_files =
     reconcile_loop E scene_durations 0 tts_files reconcile_init"


subsection \<open>The whole of \<^verbatim>\<open>_create_video_with_tts\<close>\<close>

text \<open>
  The video that is written: its clips in the order of the concatenation, the narration
  clips set as its audio (none when no audio was set) and whether background music was
  mixed in.
\<close>

record video =
  video_path :: string
  video_clips :: "clip list"
  video_audio :: "audio_clip list"
  video_music :: bool

text \<open>
  The block \<^verbatim>\<open>if any(tts_files)\<close>: the clips and the narration of the final video, from
  the clips of the first pass. An exception inside the block is caught and leaves the
  video of the first pass without narration.
\<close>

definition add_tts_audio ::
  "video_env \<Rightarrow> string list \<Rightarrow> real list \<Rightarrow> string list \<Rightarrow> nat list list \<Rightarrow>
   string option list \<Rightarrow> clip list \<Rightarrow> clip list \<times> audio_clip list" where
  "add_tts_audio E image_paths scene_durations effects scene_texts tts_files first_clips =
     (if list_ex truthy tts_files then
        (case reconcile E scene_durations tts_files of
           Inl e \<Rightarrow> (first_clips, [])
         | Inr s \<Rightarrow>
             (if adjusted_scene_durations s \<noteq> scene_durations then
                (let rebuilt = build_clips E image_paths (adjusted_scene_durations s)
                                 effects scene_texts
                 in if rebuilt \<noteq> [] then rebuilt else first_clips)
              else first_clips,
              audio_clips s))
      else (first_clips, []))"

definition create_video_with_tts ::
  "video_env \<Rightarrow> string list \<Rightarrow> string \<Rightarrow> real list \<Rightarrow> string list \<Rightarrow> nat list list \<Rightarrow>
   (string \<times> string option) list \<Rightarrow> string option \<Rightarrow> error + video" where
  "create_video_with_tts E image_paths output_path scene_durations effects scene_texts
       voice_settings background_music =
     (let tts_files = generate_tts_files E voice_settings scene_texts;
          first_clips = build_clips E image_paths scene_durations effects scene_texts
      in
      if first_clips = [] then Inl NoValidClips
      else
        (case add_tts_audio E image_paths scene_durations effects scene_texts tts_files
                first_clips of
           (final_clips, narration) \<Rightarrow>
             if env_write_ok E output_path then
               Inr \<lparr>video_path = output_path, video_clips = final_clips,
                     video_audio = narration,
                     video_music =
                       (truthy background_music \<and> env_path_exists E (the background_music)
                        \<and> env_music_ok E (the background_music))\<rparr>
             else Inl (ProviderError ''write_videofile'')))"

subsection \<open>Concatenation of the simple video (\<^verbatim>\<open>_concatenate_with_transitions\<close>)\<close>






section \<open>Further notions\<close>


text \<open>
  The duration the reconciliation gives scene \<open>i\<close>: the measured audio duration plus the
  buffer of half a second when it is positive, the requested duration otherwise.
\<close>

definition expected_duration :: "video_env \<Rightarrow> real list \<Rightarrow> nat \<Rightarrow> string option \<Rightarrow> real" where
  "expected_duration E scene_durations i tts_file =
     (case measured_audio E tts_file of
        None \<Rightarrow> scene_durations ! i
      | Some d \<Rightarrow> if d > 0 then d + 0.5 else scene_durations ! i)"

text \<open>What holds of the state after the whole list.\<close>

definition reconciled :: "video_env \<Rightarrow> real list \<Rightarrow> string option list \<Rightarrow> reconcile_state \<Rightarrow> bool" where
  "reconciled E sd tts s \<longleftrightarrow>
     length (adjusted_scene_durations s) = length tts \<and>
     current_time s = sum_list (adjusted_scene_durations s) \<and>
     (\<forall>k<length tts. adjusted_scene_durations s ! k = expected_duration E sd k (tts ! k)) \<and>
     (\<forall>a\<in>set (audio_clips s).
        audio_index a < length tts \<and>
        audio_start a = sum_list (take (audio_index a) (adjusted_scene_durations s)) \<and>
        measured_audio E (tts ! audio_index a) = Some (audio_duration a) \<and>
        0 < audio_duration a)"


section \<open>Concrete environments and inputs\<close>

text \<open>
  The environments and inputs at which the theorems below are instantiated. The scenario
  of the \<open>demo\<close> constants has three scenes of 3 s each; the narration of the first scene
  fails with every provider, that of the second scene is generated and lasts 7.2 s, and
  the third scene has no text.
\<close>

definition dirs_ok :: "string \<Rightarrow> bool" where
  "dirs_ok output_path = True"



definition no_keys :: "string \<Rightarrow> string option" where
  "no_keys provider = None"









definition is_space_code :: "nat \<Rightarrow> bool" where
  "is_space_code c = (c \<in> set [9, 10, 11, 12, 13, 28, 29, 30, 31, 32])"

definition lower_codes :: "nat list \<Rightarrow> nat list" where
  "lower_codes t = map (\<lambda>c. if 65 \<le> c \<and> c \<le> 90 then c + 32 else c) t"

definition adapter_scene_2 :: "string \<Rightarrow> nat list \<Rightarrow> string \<Rightarrow> error + string" where
  "adapter_scene_2 provider text output_path =
     (if output_path = ''temp/scene_2_tts.mp3'' then Inr output_path
      else Inl (ProviderError ''unreachable''))"

definition clip_ok :: "string \<Rightarrow> real \<Rightarrow> bool" where
  "clip_ok img_path duration = True"

definition audio_7_2 :: "string \<Rightarrow> error + real" where
  "audio_7_2 p = Inr 7.2"

definition demo_env :: video_env where
  "demo_env =
     \<lparr>env_isspace = is_space_code, env_lower = lower_codes, env_get_api_key = no_keys,
      env_temp_dir_ok = True, env_makedirs_ok = dirs_ok, env_tts_adapter = adapter_scene_2,
      env_image_clip_ok = clip_ok, env_path_exists = dirs_ok, env_audio_duration = audio_7_2,
      env_music_ok = dirs_ok, env_write_ok = dirs_ok\<rparr>"

definition demo_images :: "string list" where
  "demo_images = [''img1.png'', ''img2.png'', ''img3.png'']"

definition demo_durations :: "real list" where
  "demo_durations = [3, 3, 3]"

definition demo_effects :: "string list" where
  "demo_effects = [''ken_burns'', ''ken_burns'', ''ken_burns'']"

definition demo_texts :: "nat list list" where
  "demo_texts = [ustr ''hello'', ustr ''a story'', []]"

definition demo_settings :: "(string \<times> string option) list" where
  "demo_settings = [(''provider'', Some ''edge'')]"

definition demo_tts_files :: "string option list" where
  "demo_tts_files = [None, Some ''temp/scene_2_tts.mp3'', None]"

definition demo_state :: reconcile_state where
  "demo_state =
     \<lparr>audio_clips = [\<lparr>audio_index = 1, audio_path = ''temp/scene_2_tts.mp3'',
                       audio_start = 3, audio_duration = 7.2\<rparr>],
      adjusted_scene_durations = [3, 7.7, 3],
      current_time = 13.7\<rparr>"

definition demo_clip :: "nat \<Rightarrow> real \<Rightarrow> speed_tier \<Rightarrow> fade list \<Rightarrow> clip" where
  "demo_clip i d tier fades =
     \<lparr>clip_index = i, clip_image = demo_images ! i, clip_duration = d,
      clip_effect = ''ken_burns'', clip_motion = Some tier, clip_fades = fades\<rparr>"


definition demo_video :: video where
  "demo_video =
     \<lparr>video_path = ''outputs/videos/final.mp4'',
      video_clips = [demo_clip 0 3 medium_tier [FadeOut (1 / 2)],
                     demo_clip 1 7.7 slow_tier [FadeIn (1 / 2), FadeOut (1 / 2)],
                     demo_clip 2 3 medium_tier [FadeIn (1 / 2)]],
      video_audio = [\<lparr>audio_index = 1, audio_path = ''temp/scene_2_tts.mp3'',
                       audio_start = 3, audio_duration = 7.2\<rparr>],
      video_music = False\<rparr>"



section \<open>Auxiliary facts\<close>





























lemma make_clip_SomeD:
  assumes "make_clip E n texts i img d eff = Some c"
  shows "clip_index c = i" and "clip_image c = img" and "clip_duration c = d"
    and "clip_motion c = (if clip_effect c = ''ken_burns'' then Some (ken_burns_tier d) else None)"
    and "clip_fades c = (if i > 0 then [FadeIn 0.5] else []) @
                        (if i + 1 < n then [FadeOut 0.5] else [])"
  using assms by (auto simp: make_clip_def Let_def split: if_splits)

lemma clips_from_mem:
  "c \<in> set (clips_from E n texts i zs) \<longleftrightarrow>
     (\<exists>k<length zs. make_clip E n texts (i + k) (fst (zs ! k)) (fst (snd (zs ! k)))
                       (snd (snd (zs ! k))) = Some c)"
proof (induction zs arbitrary: i)
  case Nil
  then show ?case by simp
next
  case (Cons z zs)
  obtain img d eff where z: "z = (img, d, eff)" by (cases z) auto
  let ?P = "\<lambda>j k. make_clip E n texts (j + k) (fst ((z # zs) ! k)) (fst (snd ((z # zs) ! k)))
                     (snd (snd ((z # zs) ! k))) = Some c"
  have split: "(\<exists>k<length (z # zs). ?P i k) \<longleftrightarrow>
      make_clip E n texts i img d eff = Some c \<or>
      (\<exists>k<length zs. make_clip E n texts (Suc i + k) (fst (zs ! k)) (fst (snd (zs ! k)))
                        (snd (snd (zs ! k))) = Some c)"
  proof
    assume "\<exists>k<length (z # zs). ?P i k"
    then obtain k where k: "k < length (z # zs)" and p: "?P i k" by blast
    show "make_clip E n texts i img d eff = Some c \<or>
      (\<exists>k<length zs. make_clip E n texts (Suc i + k) (fst (zs ! k)) (fst (snd (zs ! k)))
                        (snd (snd (zs ! k))) = Some c)"
    proof (cases k)
      case 0
      with p z show ?thesis by simp
    next
      case (Suc k')
      with k p have "k' < length zs \<and>
          make_clip E n texts (Suc i + k') (fst (zs ! k')) (fst (snd (zs ! k')))
            (snd (snd (zs ! k'))) = Some c"
        by simp
      then show ?thesis by blast
    qed
  next
    assume "make_clip E n texts i img d eff = Some c \<or>
      (\<exists>k<length zs. make_clip E n texts (Suc i + k) (fst (zs ! k)) (fst (snd (zs ! k)))
                        (snd (snd (zs ! k))) = Some c)"
    then show "\<exists>k<length (z # zs). ?P i k"
    proof
      assume "make_clip E n texts i img d eff = Some c"
      then show ?thesis using z by (intro exI [of _ 0]) simp
    next
      assume "\<exists>k<length zs. make_clip E n texts (Suc i + k) (fst (zs ! k)) (fst (snd (zs ! k)))
                        (snd (snd (zs ! k))) = Some c"
      then obtain k where "k < length zs"
        and "make_clip E n texts (Suc i + k) (fst (zs ! k)) (fst (snd (zs ! k)))
               (snd (snd (zs ! k))) = Some c"
        by blast
      then show ?thesis by (intro exI [of _ "Suc k"]) simp
    qed
  qed
  have "c \<in> set (clips_from E n texts i (z # zs)) \<longleftrightarrow>
      make_clip E n texts i img d eff = Some c \<or> c \<in> set (clips_from E n texts (Suc i) zs)"
    unfolding z by (cases "make_clip E n texts i img d eff") auto
  then show ?case unfolding split Cons.IH [of "Suc i"] .
qed

lemma build_clips_mem:
  "c \<in> set (build_clips E imgs ds effs texts) \<longleftrightarrow>
     (\<exists>k. k < length imgs \<and> k < length ds \<and> k < length effs \<and>
          make_clip E (length imgs) texts k (imgs ! k) (ds ! k) (effs ! k) = Some c)"
proof -
  have "c \<in> set (build_clips E imgs ds effs texts) \<longleftrightarrow>
      (\<exists>k<length (zip imgs (zip ds effs)).
          make_clip E (length imgs) texts (0 + k) (fst (zip imgs (zip ds effs) ! k))
            (fst (snd (zip imgs (zip ds effs) ! k)))
            (snd (snd (zip imgs (zip ds effs) ! k))) = Some c)"
    unfolding build_clips_def by (rule clips_from_mem)
  also have "\<dots> \<longleftrightarrow> (\<exists>k. k < length imgs \<and> k < length ds \<and> k < length effs \<and>
          make_clip E (length imgs) texts k (imgs ! k) (ds ! k) (effs ! k) = Some c)"
    by (rule ex_cong1) auto
  finally show ?thesis .
qed




lemma reconcile_step_Inr:
  assumes "reconcile_step E sd i t s = Inr s'"
  shows "adjusted_scene_durations s' = adjusted_scene_durations s @ [expected_duration E sd i t]"
    and "current_time s' = current_time s + expected_duration E sd i t"
    and "audio_clips s' = audio_clips s @
           (case measured_audio E t of
              None \<Rightarrow> []
            | Some d \<Rightarrow>
                if d > 0 then [\<lparr>audio_index = i, audio_path = the t,
                                audio_start = current_time s, audio_duration = d\<rparr>]
                else [])"
  using assms
  by (auto simp: reconcile_step_def keep_requested_def measured_audio_def expected_duration_def
      Let_def split: option.splits sum.splits if_splits)


lemma reconcile_loop_append:
  "reconcile_loop E sd i (ts @ us) s =
     (case reconcile_loop E sd i ts s of
        Inl e \<Rightarrow> Inl e
      | Inr s1 \<Rightarrow> reconcile_loop E sd (i + length ts) us s1)"
proof (induction ts arbitrary: i s)
  case Nil
  then show ?case by simp
next
  case (Cons t ts)
  show ?case
  proof (cases "reconcile_step E sd i t s")
    case (Inl e)
    then show ?thesis by simp
  next
    case (Inr s')
    then show ?thesis using Cons.IH [of "Suc i" s'] by (simp split: sum.splits)
  qed
qed

lemma reconcile_snoc:
  "reconcile E sd (ts @ [t]) =
     (case reconcile E sd ts of
        Inl e \<Rightarrow> Inl e
      | Inr s1 \<Rightarrow> reconcile_step E sd (length ts) t s1)"
  unfolding reconcile_def reconcile_loop_append
  by (auto split: sum.splits)

lemma reconcile_reconciled:
  "reconcile E sd tts = Inr s \<Longrightarrow> reconciled E sd tts s"
proof (induction tts arbitrary: s rule: rev_induct)
  case Nil
  then show ?case by (auto simp: reconcile_def reconcile_init_def reconciled_def)
next
  case (snoc t ts)
  from snoc.prems obtain s1 where s1: "reconcile E sd ts = Inr s1"
    and step: "reconcile_step E sd (length ts) t s1 = Inr s"
    unfolding reconcile_snoc by (auto split: sum.splits)
  from snoc.IH [OF s1] have ih: "reconciled E sd ts s1" .
  let ?adj1 = "adjusted_scene_durations s1"
  let ?d = "expected_duration E sd (length ts) t"
  note st = reconcile_step_Inr [OF step]
  have len1: "length ?adj1 = length ts" using ih by (simp add: reconciled_def)
  have len: "length (adjusted_scene_durations s) = length (ts @ [t])"
    using st(1) len1 by simp
  have time: "current_time s = sum_list (adjusted_scene_durations s)"
    using st(1,2) ih by (simp add: reconciled_def)
  have vals: "adjusted_scene_durations s ! k = expected_duration E sd k ((ts @ [t]) ! k)"
    if "k < length (ts @ [t])" for k
  proof (cases "k < length ts")
    case True
    then show ?thesis using st(1) ih len1 by (simp add: reconciled_def nth_append)
  next
    case False
    with that have "k = length ts" by simp
    then show ?thesis using st(1) len1 by (simp add: nth_append)
  qed
  have audio: "audio_index a < length (ts @ [t]) \<and>
        audio_start a = sum_list (take (audio_index a) (adjusted_scene_durations s)) \<and>
        measured_audio E ((ts @ [t]) ! audio_index a) = Some (audio_duration a) \<and>
        0 < audio_duration a"
    if a: "a \<in> set (audio_clips s)" for a
  proof (cases "a \<in> set (audio_clips s1)")
    case True
    with ih have o: "audio_index a < length ts"
      and "audio_start a = sum_list (take (audio_index a) ?adj1)"
      and "measured_audio E (ts ! audio_index a) = Some (audio_duration a)"
      and "0 < audio_duration a"
      by (auto simp: reconciled_def)
    then show ?thesis using st(1) len1 by (simp add: nth_append)
  next
    case False
    with a st(3) obtain d where m: "measured_audio E t = Some d" and d: "0 < d"
      and a_eq: "a = \<lparr>audio_index = length ts, audio_path = the t,
                      audio_start = current_time s1, audio_duration = d\<rparr>"
      by (auto split: option.splits if_splits)
    have "current_time s1 = sum_list ?adj1" using ih by (simp add: reconciled_def)
    then show ?thesis using a_eq m d st(1) len1 by simp
  qed
  from len time vals audio show ?case unfolding reconciled_def by blast
qed







lemma built_clip_motion:
  assumes "c \<in> set (build_clips E imgs ds effs texts)"
  shows "clip_index c < length ds" and "clip_duration c = ds ! clip_index c"
    and "clip_motion c =
           (if clip_effect c = ''ken_burns'' then Some (ken_burns_tier (clip_duration c)) else None)"
    and "clip_fades c = (if clip_index c > 0 then [FadeIn 0.5] else []) @
                        (if clip_index c + 1 < length imgs then [FadeOut 0.5] else [])"
proof -
  from assms obtain k where k: "k < length imgs" "k < length ds" "k < length effs"
    and mk: "make_clip E (length imgs) texts k (imgs ! k) (ds ! k) (effs ! k) = Some c"
    unfolding build_clips_mem by blast
  note f = make_clip_SomeD [OF mk]
  show "clip_index c < length ds" using f(1) k by simp
  show "clip_duration c = ds ! clip_index c" using f(1,3) by simp
  show "clip_motion c =
           (if clip_effect c = ''ken_burns'' then Some (ken_burns_tier (clip_duration c)) else None)"
    using f(3,4) by simp
  show "clip_fades c = (if clip_index c > 0 then [FadeIn 0.5] else []) @
                        (if clip_index c + 1 < length imgs then [FadeOut 0.5] else [])"
    using f(1,5) by simp
qed

lemma add_tts_audio_clips:
  assumes "add_tts_audio E imgs sd effs texts tts first = (clips, narration)"
  shows "clips = first \<or>
         (\<exists>s. reconcile E sd tts = Inr s \<and>
              clips = build_clips E imgs (adjusted_scene_durations s) effs texts)"
  using assms
  by (auto simp: add_tts_audio_def Let_def split: if_splits sum.splits)

lemma video_clips_built:
  assumes "create_video_with_tts E imgs out sd effs texts vs bm = Inr v"
  shows "\<exists>ds. video_clips v = build_clips E imgs ds effs texts"
proof -
  let ?tts = "generate_tts_files E vs texts"
  let ?first = "build_clips E imgs sd effs texts"
  obtain clips narration
    where a: "add_tts_audio E imgs sd effs texts ?tts ?first = (clips, narration)"
    by (cases "add_tts_audio E imgs sd effs texts ?tts ?first") auto
  from assms a have "video_clips v = clips"
    by (auto simp: create_video_with_tts_def Let_def split: if_splits)
  with add_tts_audio_clips [OF a] show ?thesis by auto
qed

lemma tier_boundaries:
  "(d < 2 \<longrightarrow> ken_burns_tier d = fast_tier) \<and>
   (2 \<le> d \<and> d < 5 \<longrightarrow> ken_burns_tier d = medium_tier) \<and>
   (5 \<le> d \<longrightarrow> ken_burns_tier d = slow_tier)"
  by (simp add: ken_burns_tier_def fast_tier_def medium_tier_def slow_tier_def)





lemma measured_audio_None [simp]: "measured_audio E None = None"
  by (simp add: measured_audio_def)


lemma demo_select:
  "select_effect_for_scene lower_codes ''ken_burns'' (ustr ''hello'') = ''ken_burns''"
  "select_effect_for_scene lower_codes ''ken_burns'' (ustr ''a story'') = ''ken_burns''"
  "select_effect_for_scene lower_codes ''ken_burns'' [] = ''ken_burns''"
  by (simp_all add: select_effect_for_scene_def lower_codes_def ustr_def any_word_in_def
      zoom_in_words_def zoom_out_words_def pan_left_words_def pan_right_words_def
      ken_burns_words_def static_words_def sublist_code Let_def)

lemma demo_strip:
  "py_strip is_space_code (ustr ''hello'') = ustr ''hello''"
  "py_strip is_space_code (ustr ''a story'') = ustr ''a story''"
  by (simp_all add: py_strip_def is_space_code_def ustr_def)

lemma demo_paths:
  "tts_path 0 = ''temp/scene_1_tts.mp3''" "tts_path (Suc 0) = ''temp/scene_2_tts.mp3''"
  by (simp_all add: tts_path_def digit_char_def)

lemma demo_nonempty: "ustr ''hello'' \<noteq> []" "ustr ''a story'' \<noteq> []"
  by (simp_all add: ustr_def)

lemma demo_generate_tts_files:
  "generate_tts_files demo_env demo_settings demo_texts = demo_tts_files"
  by (simp add: generate_tts_files_def demo_env_def demo_settings_def demo_texts_def
      demo_tts_files_def voice_generator_init_def lower_def lower_char_def truthy_def
      no_keys_def Let_def demo_strip demo_paths demo_nonempty generate_voice_def dirs_ok_def
      providers_to_try_def tts_names_def adapter_scene_2_def)

lemma demo_reconcile: "reconcile demo_env demo_durations demo_tts_files = Inr demo_state"
  by (simp add: reconcile_def reconcile_init_def reconcile_step_def keep_requested_def
      demo_env_def demo_durations_def demo_tts_files_def demo_state_def dirs_ok_def
      audio_7_2_def Let_def)

lemma demo_build_first:
  "build_clips demo_env demo_images demo_durations demo_effects demo_texts =
     [demo_clip 0 3 medium_tier [FadeOut (1 / 2)],
      demo_clip 1 3 medium_tier [FadeIn (1 / 2), FadeOut (1 / 2)],
      demo_clip 2 3 medium_tier [FadeIn (1 / 2)]]"
  by (simp add: build_clips_def make_clip_def demo_env_def demo_images_def demo_durations_def
      demo_effects_def demo_texts_def demo_clip_def clip_ok_def demo_select Let_def
      ken_burns_tier_def medium_tier_def)

lemma demo_build_rebuilt:
  "build_clips demo_env demo_images (adjusted_scene_durations demo_state) demo_effects demo_texts =
     [demo_clip 0 3 medium_tier [FadeOut (1 / 2)],
      demo_clip 1 7.7 slow_tier [FadeIn (1 / 2), FadeOut (1 / 2)],
      demo_clip 2 3 medium_tier [FadeIn (1 / 2)]]"
  by (simp add: build_clips_def make_clip_def demo_env_def demo_images_def demo_state_def
      demo_effects_def demo_texts_def demo_clip_def clip_ok_def demo_select Let_def
      ken_burns_tier_def medium_tier_def slow_tier_def)

lemma demo_create:
  "create_video_with_tts demo_env demo_images ''outputs/videos/final.mp4'' demo_durations
     demo_effects demo_texts demo_settings None = Inr demo_video"
proof -
  have any: "list_ex truthy demo_tts_files" by (simp add: demo_tts_files_def truthy_def)
  have ne: "adjusted_scene_durations demo_state \<noteq> demo_durations"
    by (simp add: demo_state_def demo_durations_def)
  have w: "env_write_ok demo_env ''outputs/videos/final.mp4''"
    by (simp add: demo_env_def dirs_ok_def)
  have a: "audio_clips demo_state = video_audio demo_video"
    by (simp add: demo_state_def demo_video_def)
  show ?thesis
    using any ne w a
    by (simp add: create_video_with_tts_def add_tts_audio_def demo_generate_tts_files
        demo_reconcile demo_build_first demo_build_rebuilt Let_def demo_video_def truthy_def)
qed







section \<open>The claims\<close>















text \<open>
  \<^bold>\<open>C7\<close>, as stated, fails: the claim puts a duration of exactly 5 s in the medium tier
  (zoom speed 1.0, pan speed 0.8, zoom extent 0.20); the second test of the code is
  \<^verbatim>\<open>duration < 5.0\<close>, so 5 s gets the slow tier.
\<close>

theorem C7_five_seconds_counterexample:
  "ken_burns_tier 5 \<noteq> medium_tier \<and> ken_burns_tier 5 = slow_tier"
  by (simp add: ken_burns_tier_def medium_tier_def slow_tier_def)

text \<open>
  \<^bold>\<open>C7\<close>, amended. The motion speed tier is selected from the reconciled scene duration
  exactly as: a duration below 2 s gives the fast tier (0.8, 0.6, 0.30), a duration from
  2 s up to but not including 5 s gives the medium tier (1.0, 0.8, 0.20), and a duration of
  5 s or more gives the slow tier (1.2, 1.0, 0.15); exactly 5 s falls in the slow tier.

  The first part is about the clips rebuilt from \<^verbatim>\<open>adjusted_scene_durations\<close>: a clip
  with the Ken Burns effect has the reconciled duration of its scene and the tier of that
  duration. The second part says the same of every clip of the video that is written and
  the duration the clip has there. The third part is the selection itself, for any
  duration.
\<close>

theorem C7_tier_selection:
  "(reconcile E sd tts = Inr s \<and>
    c \<in> set (build_clips E imgs (adjusted_scene_durations s) effs texts) \<and>
    clip_effect c = ''ken_burns'' \<longrightarrow>
      clip_index c < length tts \<and>
      clip_duration c = adjusted_scene_durations s ! clip_index c \<and>
      (adjusted_scene_durations s ! clip_index c < 2 \<longrightarrow> clip_motion c = Some fast_tier) \<and>
      (2 \<le> adjusted_scene_durations s ! clip_index c \<and>
       adjusted_scene_durations s ! clip_index c < 5 \<longrightarrow> clip_motion c = Some medium_tier) \<and>
      (5 \<le> adjusted_scene_durations s ! clip_index c \<longrightarrow> clip_motion c = Some slow_tier)) \<and>
   (create_video_with_tts E imgs out sd effs texts vs bm = Inr v \<and>
    c' \<in> set (video_clips v) \<and> clip_effect c' = ''ken_burns'' \<longrightarrow>
      (clip_duration c' < 2 \<longrightarrow> clip_motion c' = Some fast_tier) \<and>
      (2 \<le> clip_duration c' \<and> clip_duration c' < 5 \<longrightarrow> clip_motion c' = Some medium_tier) \<and>
      (5 \<le> clip_duration c' \<longrightarrow> clip_motion c' = Some slow_tier)) \<and>
   (d < 2 \<longrightarrow> ken_burns_tier d = fast_tier) \<and>
   (2 \<le> d \<and> d < 5 \<longrightarrow> ken_burns_tier d = medium_tier) \<and>
   (5 \<le> d \<longrightarrow> ken_burns_tier d = slow_tier)"
proof -
  have rebuilt: "clip_index c < length tts \<and>
      clip_duration c = adjusted_scene_durations s ! clip_index c \<and>
      (adjusted_scene_durations s ! clip_index c < 2 \<longrightarrow> clip_motion c = Some fast_tier) \<and>
      (2 \<le> adjusted_scene_durations s ! clip_index c \<and>
       adjusted_scene_durations s ! clip_index c < 5 \<longrightarrow> clip_motion c = Some medium_tier) \<and>
      (5 \<le> adjusted_scene_durations s ! clip_index c \<longrightarrow> clip_motion c = Some slow_tier)"
    if r: "reconcile E sd tts = Inr s"
      and c: "c \<in> set (build_clips E imgs (adjusted_scene_durations s) effs texts)"
      and kb: "clip_effect c = ''ken_burns''"
  proof -
    have len: "length (adjusted_scene_durations s) = length tts"
      using reconcile_reconciled [OF r] by (simp add: reconciled_def)
    note b = built_clip_motion [OF c]
    from b(3) kb have m: "clip_motion c = Some (ken_burns_tier (clip_duration c))" by simp
    from b(1) len have "clip_index c < length tts" by simp
    with b(2) m tier_boundaries [of "clip_duration c"] show ?thesis by auto
  qed
  have final: "(clip_duration c' < 2 \<longrightarrow> clip_motion c' = Some fast_tier) \<and>
      (2 \<le> clip_duration c' \<and> clip_duration c' < 5 \<longrightarrow> clip_motion c' = Some medium_tier) \<and>
      (5 \<le> clip_duration c' \<longrightarrow> clip_motion c' = Some slow_tier)"
    if v: "create_video_with_tts E imgs out sd effs texts vs bm = Inr v"
      and c: "c' \<in> set (video_clips v)" and kb: "clip_effect c' = ''ken_burns''"
  proof -
    from video_clips_built [OF v] c obtain ds where "c' \<in> set (build_clips E imgs ds effs texts)"
      by auto
    from built_clip_motion(3) [OF this] kb
    have "clip_motion c' = Some (ken_burns_tier (clip_duration c'))" by simp
    with tier_boundaries [of "clip_duration c'"] show ?thesis by auto
  qed
  from rebuilt final tier_boundaries [of d] show ?thesis by blast
qed

text \<open>
  C7, amended, at the scenario: the second scene, reconciled to 7.7 s, moves in the slow
  tier and the first, at 3 s, in the medium tier.
\<close>

theorem C7_tier_selection_witness:
  "clip_duration
     (build_clips demo_env demo_images (adjusted_scene_durations demo_state) demo_effects
        demo_texts ! 1) = adjusted_scene_durations demo_state ! 1 \<and>
   clip_motion
     (build_clips demo_env demo_images (adjusted_scene_durations demo_state) demo_effects
        demo_texts ! 1) = Some slow_tier \<and>
   clip_motion (video_clips demo_video ! 0) = Some medium_tier \<and>
   ken_burns_tier 1 = fast_tier \<and> ken_burns_tier 2 = medium_tier \<and>
   ken_burns_tier 5 = slow_tier"
proof -
  let ?cs = "build_clips demo_env demo_images (adjusted_scene_durations demo_state)
               demo_effects demo_texts"
  have mem: "?cs ! 1 \<in> set ?cs" by (simp add: demo_build_rebuilt)
  have eff: "clip_effect (?cs ! 1) = ''ken_burns''"
    by (simp add: demo_build_rebuilt demo_clip_def)
  have idx: "clip_index (?cs ! 1) = 1" by (simp add: demo_build_rebuilt demo_clip_def)
  have long: "5 \<le> adjusted_scene_durations demo_state ! clip_index (?cs ! 1)"
    unfolding idx by (simp add: demo_state_def)
  have vmem: "video_clips demo_video ! 0 \<in> set (video_clips demo_video)"
    by (simp add: demo_video_def)
  have veff: "clip_effect (video_clips demo_video ! 0) = ''ken_burns''"
    by (simp add: demo_video_def demo_clip_def)
  have vdur: "2 \<le> clip_duration (video_clips demo_video ! 0) \<and>
              clip_duration (video_clips demo_video ! 0) < 5"
    by (simp add: demo_video_def demo_clip_def)
  note t = C7_tier_selection
             [of demo_env demo_durations demo_tts_files demo_state "?cs ! 1" demo_images
                 demo_effects demo_texts "''outputs/videos/final.mp4''" demo_settings None
                 demo_video "video_clips demo_video ! 0"]
  from t [of 1] demo_reconcile mem eff long
  have a: "clip_duration (?cs ! 1) = adjusted_scene_durations demo_state ! clip_index (?cs ! 1)"
    and b: "clip_motion (?cs ! 1) = Some slow_tier"
    by blast+
  from t [of 1] demo_create vmem veff vdur
  have c: "clip_motion (video_clips demo_video ! 0) = Some medium_tier" by blast
  from t [of 1] have d1: "ken_burns_tier 1 = fast_tier" by simp
  from t [of 2] have d2: "ken_burns_tier 2 = medium_tier" by simp
  from t [of 5] have d5: "ken_burns_tier 5 = slow_tier" by simp
  from a b c d1 d2 d5 show ?thesis unfolding idx by blast
qed









end
